theory Spec2Isabelle
  imports Main "HOL-Library.Word" "HOL-Library.Sublist"
begin

section \<open>Strings, environment and errors\<close>

text \<open>
  Python strings are modelled as \<open>string\<close>. \<open>str.lower\<close> is modelled on the ASCII
  letters, which is where the source uses it (e-mail addresses and the \<open>.pdf\<close> suffix).
\<close>

definition lower_char :: "char \<Rightarrow> char" where
  "lower_char c =
     (let n = of_char c :: nat in if 65 \<le> n \<and> n \<le> 90 then char_of (n + 32) else c)"

definition lower :: "string \<Rightarrow> string" where
  "lower s = map lower_char s"

definition endswith :: "string \<Rightarrow> string \<Rightarrow> bool" where
  "endswith s suf = (length suf \<le> length s \<and> drop (length s - length suf) s = suf)"

text \<open>Python truthiness of an \<open>Optional[str]\<close>: \<open>None\<close> and the empty string are false.\<close>

definition truthy :: "string option \<Rightarrow> bool" where
  "truthy s = (case s of None \<Rightarrow> False | Some v \<Rightarrow> v \<noteq> [])"

text \<open>
  Time is counted in microseconds since the epoch, the resolution of Python's
  \<open>datetime\<close>. \<open>datetime.now(timezone.utc)\<close> is the parameter \<open>now\<close> of every
  operation that reads the clock.
\<close>

type_synonym timestamp = int

definition timedelta_minutes :: "int \<Rightarrow> int" where
  "timedelta_minutes m = m * 60 * 1000000"

definition timedelta_hours :: "int \<Rightarrow> int" where
  "timedelta_hours h = h * 3600 * 1000000"

text \<open>\<open>calendar.timegm(dt.utctimetuple())\<close>: whole seconds, the microseconds dropped.\<close>

definition timegm :: "timestamp \<Rightarrow> int" where
  "timegm t = t div 1000000"

text \<open>
  What the program takes from outside itself: the process environment read by
  \<open>os.getenv\<close>, and the library functions whose results the source only passes on
  (the e-mail validator behind pydantic's \<open>EmailStr\<close>, which returns the normalised
  address or fails; \<open>datetime.fromisoformat\<close>, which returns a time or raises
  \<open>ValueError\<close>; and the database's regular-expression engine on the patterns that the
  fragment modelled below does not cover, which yields a matcher or rejects the pattern).
\<close>

record env =
  environ :: "(string \<times> string) list"
  validate_email :: "string \<Rightarrow> string option"
  fromisoformat :: "string \<Rightarrow> timestamp option"
  regex_engine :: "string \<Rightarrow> (string \<Rightarrow> bool) option"

definition getenv :: "env \<Rightarrow> string \<Rightarrow> string \<Rightarrow> string" where
  "getenv e k dflt = (case map_of (environ e) k of None \<Rightarrow> dflt | Some v \<Rightarrow> v)"

definition SECRET_KEY :: "env \<Rightarrow> string" where
  "SECRET_KEY e = getenv e ''JWT_SECRET'' ''super-secret-key-change''"

definition ALGORITHM :: string where
  "ALGORITHM = ''HS256''"

definition ACCESS_TOKEN_EXPIRE_MINUTES :: int where
  "ACCESS_TOKEN_EXPIRE_MINUTES = 60 * 12"

definition ADMIN_EMAIL :: "env \<Rightarrow> string" where
  "ADMIN_EMAIL e = getenv e ''ADMIN_EMAIL'' ''admin@arstudios.com''"

definition STUDIO_EMAIL :: "env \<Rightarrow> string" where
  "STUDIO_EMAIL e = getenv e ''STUDIO_EMAIL'' ''studio@arstudios.com''"

text \<open>
  Errors are values. \<open>HTTPException\<close> carries the status code and the detail that the
  source gives it; \<open>Unhandled\<close> is any other exception leaving a handler, which the
  framework answers with a 500.
\<close>

datatype exc = ValueError | AttributeError | PydanticValidationError | InvalidId
  | DuplicateKeyError | OperationFailure | BinasciiError

datatype error = HTTPException int string | Unhandled exc

fun status_code :: "error \<Rightarrow> int" where
  "status_code (HTTPException c d) = c"
| "status_code (Unhandled x) = 500"

section \<open>Session tokens\<close>

text \<open>
  The JWT library is outside the repository. A token is modelled by what the library
  parses it into: the header's algorithm, the claims and the signature; a string that is
  no JWT at all is \<open>Malformed\<close>. Signatures are symbolic: \<open>HMAC k a cs\<close> is the
  signature of claims \<open>cs\<close> under algorithm \<open>a\<close> with key \<open>k\<close>, and a signature
  verifies exactly when it is that value, so a token signed with another key, or whose
  claims were changed after signing, does not verify.
\<close>

datatype jval = JStr string | JNum int

type_synonym claims = "(string \<times> jval) list"

datatype signature = HMAC string string claims | Forged string

datatype token = Malformed string | JWS string claims signature

datatype jose_error = JWTError | ExpiredSignatureError | JWTClaimsError

fun dict_update :: "'k \<Rightarrow> 'v \<Rightarrow> ('k \<times> 'v) list \<Rightarrow> ('k \<times> 'v) list" where
  "dict_update k v [] = [(k, v)]"
| "dict_update k v ((k', v') # kvs) =
     (if k' = k then (k, v) # kvs else (k', v') # dict_update k v kvs)"

definition jwt_encode :: "claims \<Rightarrow> string \<Rightarrow> string \<Rightarrow> token" where
  "jwt_encode cs key alg = JWS alg cs (HMAC key alg cs)"

text \<open>
  \<open>jwt.decode\<close>: the algorithm must be an allowed one, the signature must verify, an
  \<open>exp\<close> claim must be a number and not lie before the current second, and a \<open>sub\<close>
  claim must be a string. Each failure is one of the library's exceptions;
  \<open>ExpiredSignatureError\<close> and \<open>JWTClaimsError\<close> are subclasses of \<open>JWTError\<close>.
  A \<open>JStr\<close> under \<open>exp\<close> stands for a string that does not read as a number; the
  library's other registered claims (\<open>nbf\<close>, \<open>iat\<close>, \<open>aud\<close>, \<open>iss\<close>, \<open>jti\<close>) are not
  modelled: the source issues none of them, and their failures are \<open>JWTError\<close>s too.
\<close>

definition jwt_decode :: "token \<Rightarrow> string \<Rightarrow> string list \<Rightarrow> timestamp \<Rightarrow> jose_error + claims" where
  "jwt_decode tok key algorithms now =
     (case tok of
        Malformed s \<Rightarrow> Inl JWTError
      | JWS alg cs sg \<Rightarrow>
          if alg \<notin> set algorithms then Inl JWTError
          else if sg \<noteq> HMAC key alg cs then Inl JWTError
          else (case map_of cs ''exp'' of
                  Some (JStr s) \<Rightarrow> Inl JWTClaimsError
                | Some (JNum e) \<Rightarrow>
                    if e < timegm now then Inl ExpiredSignatureError
                    else (case map_of cs ''sub'' of
                            Some (JNum n) \<Rightarrow> Inl JWTClaimsError
                          | _ \<Rightarrow> Inr cs)
                | None \<Rightarrow>
                    (case map_of cs ''sub'' of
                       Some (JNum n) \<Rightarrow> Inl JWTClaimsError
                     | _ \<Rightarrow> Inr cs)))"

text \<open>
  \<open>create_access_token\<close>: \<open>expires_delta or timedelta(minutes=...)\<close> takes the default
  also for a zero delta, which is false in Python. The \<open>exp\<close> entry holds a
  \<open>datetime\<close>, which the library writes into the token as whole seconds.
\<close>

definition create_access_token :: "env \<Rightarrow> timestamp \<Rightarrow> claims \<Rightarrow> int option \<Rightarrow> token" where
  "create_access_token e now data expires_delta =
     (let delta = (case expires_delta of
                     None \<Rightarrow> timedelta_minutes ACCESS_TOKEN_EXPIRE_MINUTES
                   | Some d \<Rightarrow> if d = 0 then timedelta_minutes ACCESS_TOKEN_EXPIRE_MINUTES else d);
          expire = now + delta;
          to_encode = dict_update ''exp'' (JNum (timegm expire)) data
      in jwt_encode to_encode (SECRET_KEY e) ALGORITHM)"

definition credentials_exception :: error where
  "credentials_exception = HTTPException 401 ''Could not validate credentials''"

record admin =
  admin_email :: string

text \<open>
  \<open>get_current_admin\<close>: every \<open>JWTError\<close> of the library is caught and replaced by
  \<open>credentials_exception\<close>, which is also what a missing or different subject raises.
  \<open>email.lower()\<close> on a subject that is no string would raise \<open>AttributeError\<close>.
\<close>

definition get_current_admin :: "env \<Rightarrow> timestamp \<Rightarrow> token \<Rightarrow> error + admin" where
  "get_current_admin e now tok =
     (case jwt_decode tok (SECRET_KEY e) [ALGORITHM] now of
        Inl err \<Rightarrow> Inl credentials_exception
      | Inr payload \<Rightarrow>
          (case map_of payload ''sub'' of
             None \<Rightarrow> Inl credentials_exception
           | Some (JNum n) \<Rightarrow> Inl (Unhandled AttributeError)
           | Some (JStr email) \<Rightarrow>
               if lower email \<noteq> lower (ADMIN_EMAIL e) then Inl credentials_exception
               else Inr \<lparr>admin_email = ADMIN_EMAIL e\<rparr>))"

text \<open>The token that \<open>admin_login\<close> hands out: the subject is the configured admin.\<close>

definition login_token :: "env \<Rightarrow> timestamp \<Rightarrow> token" where
  "login_token e now = create_access_token e now [(''sub'', JStr (ADMIN_EMAIL e))] None"

text \<open>The ways validation of a token can fail, as the specification lists them.\<close>

definition signature_invalid :: "env \<Rightarrow> token \<Rightarrow> bool" where
  "signature_invalid e tok =
     (case tok of Malformed s \<Rightarrow> True
      | JWS alg cs sg \<Rightarrow> alg \<noteq> ALGORITHM \<or> sg \<noteq> HMAC (SECRET_KEY e) alg cs)"

definition token_claims :: "token \<Rightarrow> claims" where
  "token_claims tok = (case tok of Malformed s \<Rightarrow> [] | JWS alg cs sg \<Rightarrow> cs)"

definition token_expired :: "timestamp \<Rightarrow> token \<Rightarrow> bool" where
  "token_expired now tok =
     (case map_of (token_claims tok) ''exp'' of
        Some (JNum x) \<Rightarrow> x < timegm now | _ \<Rightarrow> False)"

definition subject_missing :: "token \<Rightarrow> bool" where
  "subject_missing tok = (map_of (token_claims tok) ''sub'' = None)"

definition subject_mismatch :: "env \<Rightarrow> token \<Rightarrow> bool" where
  "subject_mismatch e tok =
     (case map_of (token_claims tok) ''sub'' of
        Some (JStr s) \<Rightarrow> lower s \<noteq> lower (ADMIN_EMAIL e) | _ \<Rightarrow> False)"

section \<open>The document store\<close>

text \<open>
  A document's \<open>_id\<close> is a BSON object id: twelve bytes, written as 24 hexadecimal
  digits. \<open>str_oid\<close> is Python's \<open>str\<close> of an object id, \<open>ObjectId\<close> its constructor
  from a string, which raises \<open>InvalidId\<close> for anything but 24 hexadecimal digits.
\<close>

type_synonym oid = "96 word"

type_synonym byte = "8 word"

definition hex_digit :: "nat \<Rightarrow> char" where
  "hex_digit d = (if d < 10 then char_of (48 + d) else char_of (87 + d))"

definition hex_val :: "char \<Rightarrow> nat option" where
  "hex_val c =
     (let n = of_char c :: nat in
      if 48 \<le> n \<and> n \<le> 57 then Some (n - 48)
      else if 97 \<le> n \<and> n \<le> 102 then Some (n - 87)
      else if 65 \<le> n \<and> n \<le> 70 then Some (n - 55)
      else None)"

fun to_hex :: "nat \<Rightarrow> nat \<Rightarrow> string" where
  "to_hex 0 n = []"
| "to_hex (Suc k) n = to_hex k (n div 16) @ [hex_digit (n mod 16)]"

fun from_hex :: "nat \<Rightarrow> string \<Rightarrow> nat option" where
  "from_hex acc [] = Some acc"
| "from_hex acc (c # cs) =
     (case hex_val c of None \<Rightarrow> None | Some d \<Rightarrow> from_hex (acc * 16 + d) cs)"

definition str_oid :: "oid \<Rightarrow> string" where
  "str_oid k = to_hex 24 (unat k)"

definition ObjectId :: "string \<Rightarrow> exc + oid" where
  "ObjectId s =
     (if length s = 24 then
        (case from_hex 0 s of None \<Rightarrow> Inl InvalidId | Some n \<Rightarrow> Inr (of_nat n))
      else Inl InvalidId)"

text \<open>
  The \<open>Submission\<close> model of \<open>schemas.py\<close>, with its defaults: \<open>status\<close> is
  \<open>Pending\<close> and \<open>notes\<close> (here \<open>admin_notes\<close>) is the empty list unless given.
  The stored document has the model's fields and, once an update has set it,
  \<open>updated_at\<close>.
\<close>

datatype status = Pending | In_Review | Approved | Completed

fun status_str :: "status \<Rightarrow> string" where
  "status_str Pending = ''Pending''"
| "status_str In_Review = ''In Review''"
| "status_str Approved = ''Approved''"
| "status_str Completed = ''Completed''"

record Submission =
  name :: string
  email :: string
  novel_title :: string
  synopsis :: string
  message :: "string option"
  file_url :: "string option"
  file_key :: "string option"
  status :: status
  admin_notes :: "string list"
  submitted_at :: "timestamp option"

record submission_doc = Submission +
  updated_at :: "timestamp option"

record UpdateSubmission =
  new_status :: "status option"
  add_note :: "string option"

record file_doc =
  doc_filename :: string
  content_b64 :: string
  mime :: string

record notification =
  n_type :: string
  n_to :: string
  n_subject :: string
  n_payload :: Submission
  n_created_at :: timestamp

text \<open>
  The state of the database: the three collections in insertion order, the object id the
  driver will give to the next inserted document, and the log of the calls made on the
  database, so that a claim about which queries an operation issues can be stated.
\<close>

datatype db_op = InsertOne string | FindOne string oid | CountDocuments string
  | Find string | UpdateOne string oid | DeleteOne string oid

record db =
  submission_coll :: "(oid \<times> submission_doc) list"
  submission_files :: "(oid \<times> file_doc) list"
  notifications :: "(oid \<times> notification) list"
  next_oid :: oid
  oplog :: "db_op list"

definition logged :: "db_op \<Rightarrow> db \<Rightarrow> db" where
  "logged op st = st\<lparr>oplog := oplog st @ [op]\<rparr>"

text \<open>
  Modelled from the spec: \<open>create_document\<close> of \<open>database.py\<close>, which is not among
  the source files. The specification gives it as \<open>create(collection, record) -> id\<close>:
  the record is stored in the named collection under an identifier that the store
  assigns, and the identifier is returned (as a string: the source puts it into the
  \<open>str\<close> field \<open>file_key\<close> and into a path). The database refuses a second document
  with an \<open>_id\<close> that the collection already holds (\<open>DuplicateKeyError\<close>). There is one
  instance per collection, since the collections hold documents of different shapes.
\<close>

definition create_document_file :: "file_doc \<Rightarrow> db \<Rightarrow> (error + string) \<times> db" where
  "create_document_file d st =
     (let k = next_oid st;
          st1 = logged (InsertOne ''submission_files'') (st\<lparr>next_oid := k + 1\<rparr>)
      in case map_of (submission_files st) k of
           Some old \<Rightarrow> (Inl (Unhandled DuplicateKeyError), st1)
         | None \<Rightarrow>
             (Inr (str_oid k), st1\<lparr>submission_files := submission_files st @ [(k, d)]\<rparr>))"

definition create_document_submission :: "Submission \<Rightarrow> db \<Rightarrow> (error + string) \<times> db" where
  "create_document_submission data st =
     (let k = next_oid st;
          st1 = logged (InsertOne ''submission'') (st\<lparr>next_oid := k + 1\<rparr>)
      in case map_of (submission_coll st) k of
           Some old \<Rightarrow> (Inl (Unhandled DuplicateKeyError), st1)
         | None \<Rightarrow>
             (Inr (str_oid k),
              st1\<lparr>submission_coll := submission_coll st
                     @ [(k, Submission.extend data (submission_doc.fields None))]\<rparr>))"

definition create_document_notification :: "notification \<Rightarrow> db \<Rightarrow> (error + string) \<times> db" where
  "create_document_notification d st =
     (let k = next_oid st;
          st1 = logged (InsertOne ''notifications'') (st\<lparr>next_oid := k + 1\<rparr>)
      in case map_of (notifications st) k of
           Some old \<Rightarrow> (Inl (Unhandled DuplicateKeyError), st1)
         | None \<Rightarrow>
             (Inr (str_oid k), st1\<lparr>notifications := notifications st @ [(k, d)]\<rparr>))"

text \<open>
  The driver's \<open>update_one\<close> and \<open>delete_one\<close> with a filter on \<open>_id\<close>: the first
  document with that id is changed or removed, and a collection without one is left as
  it is.
\<close>

fun update_one :: "oid \<Rightarrow> ('a \<Rightarrow> 'a) \<Rightarrow> (oid \<times> 'a) list \<Rightarrow> (oid \<times> 'a) list" where
  "update_one k f [] = []"
| "update_one k f ((k', d) # rest) =
     (if k' = k then (k', f d) # rest else (k', d) # update_one k f rest)"

fun delete_one :: "oid \<Rightarrow> (oid \<times> 'a) list \<Rightarrow> (oid \<times> 'a) list" where
  "delete_one k [] = []"
| "delete_one k ((k', d) # rest) =
     (if k' = k then rest else (k', d) # delete_one k rest)"

section \<open>Base64\<close>

text \<open>
  \<open>base64.b64encode\<close> on bytes, with the standard alphabet and padding; its result is
  ASCII, so decoding it as UTF-8 gives the same characters. \<open>base64.b64decode\<close> drops
  the characters outside the alphabet and decodes groups of four; \<open>None\<close> stands for
  \<open>binascii.Error\<close>. The decoder is exact on canonical input, which is all the store
  holds; the library accepts some non-canonical strings that are refused here.
\<close>

definition b64_char :: "nat \<Rightarrow> char" where
  "b64_char i =
     (if i < 26 then char_of (65 + i)
      else if i < 52 then char_of (71 + i)
      else if i < 62 then char_of (i - 4)
      else if i = 62 then CHR ''+'' else CHR ''/'')"

definition b64_val :: "char \<Rightarrow> nat option" where
  "b64_val c =
     (let n = of_char c :: nat in
      if 65 \<le> n \<and> n \<le> 90 then Some (n - 65)
      else if 97 \<le> n \<and> n \<le> 122 then Some (n - 71)
      else if 48 \<le> n \<and> n \<le> 57 then Some (n + 4)
      else if n = 43 then Some 62
      else if n = 47 then Some 63
      else None)"

fun b64encode :: "byte list \<Rightarrow> string" where
  "b64encode [] = []"
| "b64encode [a] =
     (let n = unat a * 16
      in [b64_char (n div 64), b64_char (n mod 64), CHR ''='', CHR ''=''])"
| "b64encode [a, b] =
     (let n = (unat a * 256 + unat b) * 4
      in [b64_char (n div 4096), b64_char (n div 64 mod 64), b64_char (n mod 64), CHR ''=''])"
| "b64encode (a # b # c # rest) =
     (let n = unat a * 65536 + unat b * 256 + unat c
      in [b64_char (n div 262144), b64_char (n div 4096 mod 64),
          b64_char (n div 64 mod 64), b64_char (n mod 64)] @ b64encode rest)"

fun b64decode_groups :: "string \<Rightarrow> byte list option" where
  "b64decode_groups [] = Some []"
| "b64decode_groups (c1 # c2 # c3 # c4 # rest) =
     (if rest = [] \<and> c4 = CHR ''='' then
        (if c3 = CHR ''='' then
           (case (b64_val c1, b64_val c2) of
              (Some v1, Some v2) \<Rightarrow> Some [of_nat ((v1 * 64 + v2) div 16)]
            | _ \<Rightarrow> None)
         else
           (case (b64_val c1, b64_val c2, b64_val c3) of
              (Some v1, Some v2, Some v3) \<Rightarrow>
                (let n = (v1 * 4096 + v2 * 64 + v3) div 4
                 in Some [of_nat (n div 256), of_nat n])
            | _ \<Rightarrow> None))
      else
        (case (b64_val c1, b64_val c2, b64_val c3, b64_val c4) of
           (Some v1, Some v2, Some v3, Some v4) \<Rightarrow>
             (let n = v1 * 262144 + v2 * 4096 + v3 * 64 + v4
              in case b64decode_groups rest of
                   None \<Rightarrow> None
                 | Some bs \<Rightarrow> Some (of_nat (n div 65536) # of_nat (n div 256) # of_nat n # bs))
         | _ \<Rightarrow> None))"
| "b64decode_groups (c1 # rest) = None"

definition b64decode :: "string \<Rightarrow> byte list option" where
  "b64decode s = b64decode_groups (filter (\<lambda>c. b64_val c \<noteq> None \<or> c = CHR ''='') s)"

section \<open>Creating a submission and serving its file\<close>

record upload =
  filename :: string
  content :: "byte list"
  content_type :: "string option"

record submit_result =
  submit_success :: bool
  inserted_id :: string

record streaming_response =
  body :: "byte list"
  media_type :: string

text \<open>
  Constructing the pydantic model: \<open>email\<close> is an \<open>EmailStr\<close>, so the constructor
  raises a validation error for an address the validator refuses and keeps the
  normalised address otherwise; the other fields given are strings and are kept.
\<close>

definition Submission_init ::
  "env \<Rightarrow> string \<Rightarrow> string \<Rightarrow> string \<Rightarrow> string \<Rightarrow> string option \<Rightarrow> string option
     \<Rightarrow> string option \<Rightarrow> timestamp \<Rightarrow> error + Submission" where
  "Submission_init e nm em title syn msg furl fkey t =
     (case validate_email e em of
        None \<Rightarrow> Inl (Unhandled PydanticValidationError)
      | Some em' \<Rightarrow>
          Inr \<lparr>name = nm, email = em', novel_title = title, synopsis = syn, message = msg,
               file_url = furl, file_key = fkey, status = Pending, admin_notes = [],
               submitted_at = Some t\<rparr>)"

definition MAX_UPLOAD :: nat where
  "MAX_UPLOAD = 10 * 1024 * 1024"

text \<open>
  \<open>submit_project\<close>, the body of the handler of \<open>POST /api/submit\<close>. The clock is
  read twice: \<open>t1\<close> for \<open>submitted_at\<close> and \<open>t2\<close> for the notification's
  \<open>created_at\<close>. The result pairs the response or the error with the state of the
  database afterwards: what was written before an error stays written.
\<close>

definition submit_project ::
  "env \<Rightarrow> timestamp \<Rightarrow> timestamp \<Rightarrow> string \<Rightarrow> string \<Rightarrow> string \<Rightarrow> string \<Rightarrow> string option
     \<Rightarrow> upload option \<Rightarrow> db \<Rightarrow> (error + submit_result) \<times> db" where
  "submit_project e t1 t2 nm em title syn msg file st =
     (case (case file of
              None \<Rightarrow> (Inr (None, None), st)
            | Some f \<Rightarrow>
                if \<not> endswith (lower (filename f)) ''.pdf'' then
                  (Inl (HTTPException 400 ''Only PDF uploads are allowed''), st)
                else if length (content f) > MAX_UPLOAD then
                  (Inl (HTTPException 400 ''File too large (max 10MB in demo)''), st)
                else
                  (case create_document_file
                          \<lparr>doc_filename = filename f,
                           content_b64 = b64encode (content f),
                           mime = (case content_type f of
                                     None \<Rightarrow> ''application/pdf''
                                   | Some m \<Rightarrow> if m = [] then ''application/pdf'' else m)\<rparr>
                          st of
                     (Inl err, st1) \<Rightarrow> (Inl err, st1)
                   | (Inr fkey, st1) \<Rightarrow> (Inr (Some (''/api/files/'' @ fkey), Some fkey), st1)))
      of
        (Inl err, st1) \<Rightarrow> (Inl err, st1)
      | (Inr (furl, fkey), st1) \<Rightarrow>
          (case Submission_init e nm em title syn msg furl fkey t1 of
             Inl err \<Rightarrow> (Inl err, st1)
           | Inr data \<Rightarrow>
               (case create_document_submission data st1 of
                  (Inl err, st2) \<Rightarrow> (Inl err, st2)
                | (Inr new_id, st2) \<Rightarrow>
                    (case create_document_notification
                            \<lparr>n_type = ''new_submission'', n_to = STUDIO_EMAIL e,
                             n_subject = ''New Submission: '' @ title,
                             n_payload = data, n_created_at = t2\<rparr> st2 of
                       (Inl err, st3) \<Rightarrow> (Inl err, st3)
                     | (Inr nid, st3) \<Rightarrow>
                         (Inr \<lparr>submit_success = True, inserted_id = new_id\<rparr>, st3)))))"

text \<open>\<open>get_file\<close>, the handler of \<open>GET /api/files/{file_id}\<close>.\<close>

definition get_file :: "string \<Rightarrow> db \<Rightarrow> (error + streaming_response) \<times> db" where
  "get_file file_id st =
     (case ObjectId file_id of
        Inl x \<Rightarrow> (Inl (Unhandled x), st)
      | Inr k \<Rightarrow>
          (let st1 = logged (FindOne ''submission_files'' k) st
           in case map_of (submission_files st) k of
                None \<Rightarrow> (Inl (HTTPException 404 ''File not found''), st1)
              | Some doc \<Rightarrow>
                  (case b64decode (content_b64 doc) of
                     None \<Rightarrow> (Inl (Unhandled BinasciiError), st1)
                   | Some bytes \<Rightarrow> (Inr \<lparr>body = bytes, media_type = mime doc\<rparr>, st1))))"

section \<open>The admin operations\<close>

text \<open>
  The database's \<open>$regex\<close> operator with option \<open>i\<close>: the pattern is a regular
  expression, searched for anywhere in the field, letters compared without case. The
  model covers the patterns made of ordinary characters and of the dot, which matches
  any character but a newline; every other pattern goes to the engine of the
  environment, which may reject it.
\<close>

definition rx_meta :: string where
  "rx_meta = CHR 0x5C # ''^$.|?*+()[]{}''"

datatype rx_atom = Lit char | Dot

fun parse_simple :: "string \<Rightarrow> rx_atom list option" where
  "parse_simple [] = Some []"
| "parse_simple (c # cs) =
     (if c = CHR ''.'' then map_option ((#) Dot) (parse_simple cs)
      else if c \<in> set rx_meta then None
      else map_option ((#) (Lit c)) (parse_simple cs))"

fun atom_matches :: "rx_atom \<Rightarrow> char \<Rightarrow> bool" where
  "atom_matches (Lit x) c = (lower_char x = lower_char c)"
| "atom_matches Dot c = (c \<noteq> CHR 0x0A)"

fun rx_prefix :: "rx_atom list \<Rightarrow> string \<Rightarrow> bool" where
  "rx_prefix [] s = True"
| "rx_prefix (a # as) [] = False"
| "rx_prefix (a # as) (c # cs) = (atom_matches a c \<and> rx_prefix as cs)"

fun rx_search :: "rx_atom list \<Rightarrow> string \<Rightarrow> bool" where
  "rx_search p [] = rx_prefix p []"
| "rx_search p (c # cs) = (rx_prefix p (c # cs) \<or> rx_search p cs)"

definition mongo_regex_i :: "env \<Rightarrow> string \<Rightarrow> (string \<Rightarrow> bool) option" where
  "mongo_regex_i e pat =
     (case parse_simple pat of Some p \<Rightarrow> Some (rx_search p) | None \<Rightarrow> regex_engine e pat)"

text \<open>
  The query that \<open>list_submissions\<close> builds: equality on \<open>status\<close>, the three regular
  expression matches joined by \<open>$or\<close>, and the bounds on \<open>submitted_at\<close>. An absent
  entry does not constrain. A document without \<open>submitted_at\<close> is in no range.
\<close>

record mongo_query =
  query_status :: "string option"
  query_or :: "(string \<Rightarrow> bool) option"
  query_gte :: "timestamp option"
  query_lte :: "timestamp option"

definition doc_matches :: "mongo_query \<Rightarrow> submission_doc \<Rightarrow> bool" where
  "doc_matches qy d =
     ((case query_status qy of None \<Rightarrow> True | Some s \<Rightarrow> status_str (status d) = s)
      \<and> (case query_or qy of
            None \<Rightarrow> True
          | Some m \<Rightarrow> m (name d) \<or> m (email d) \<or> m (novel_title d))
      \<and> (case query_gte qy of
            None \<Rightarrow> True
          | Some lo \<Rightarrow> (case submitted_at d of None \<Rightarrow> False | Some t \<Rightarrow> lo \<le> t))
      \<and> (case query_lte qy of
            None \<Rightarrow> True
          | Some hi \<Rightarrow> (case submitted_at d of None \<Rightarrow> False | Some t \<Rightarrow> t \<le> hi)))"

text \<open>
  \<open>sort('submitted_at', -1)\<close>: newest first, a document without the field last. The
  database leaves the order of equal keys open; here they keep their stored order.
\<close>

definition newer_or_equal :: "submission_doc \<Rightarrow> submission_doc \<Rightarrow> bool" where
  "newer_or_equal x y =
     (case submitted_at y of
        None \<Rightarrow> True
      | Some ty \<Rightarrow> (case submitted_at x of None \<Rightarrow> False | Some tx \<Rightarrow> ty \<le> tx))"

fun insert_desc ::
  "oid \<times> submission_doc \<Rightarrow> (oid \<times> submission_doc) list \<Rightarrow> (oid \<times> submission_doc) list" where
  "insert_desc x [] = [x]"
| "insert_desc x (y # ys) =
     (if newer_or_equal (snd y) (snd x) then y # insert_desc x ys else x # y # ys)"

definition sort_desc :: "(oid \<times> submission_doc) list \<Rightarrow> (oid \<times> submission_doc) list" where
  "sort_desc xs = foldr insert_desc xs []"

text \<open>
  The cursor's \<open>skip\<close> raises \<open>ValueError\<close> for a negative number; \<open>limit\<close> with 0
  is no limit, and a negative limit bounds the result by its absolute value.
\<close>

definition cursor_limit :: "int \<Rightarrow> 'a list \<Rightarrow> 'a list" where
  "cursor_limit n xs = (if n = 0 then xs else take (nat \<bar>n\<bar>) xs)"

record listing =
  items :: "(string \<times> submission_doc) list"
  total :: nat
  page :: int
  page_size :: int

text \<open>
  \<open>if start_date: dt_query['$gte'] = datetime.fromisoformat(start_date)\<close>, and the same
  for \<open>end_date\<close>: a bound that is absent or empty sets nothing.
\<close>

definition parse_bound :: "env \<Rightarrow> string option \<Rightarrow> exc + timestamp option" where
  "parse_bound e d =
     (case d of
        None \<Rightarrow> Inr None
      | Some s \<Rightarrow>
          if s = [] then Inr None
          else (case fromisoformat e s of None \<Rightarrow> Inl ValueError | Some t \<Rightarrow> Inr (Some t)))"

text \<open>
  \<open>list_submissions\<close>, the body of the handler of \<open>GET /api/admin/submissions\<close>
  (\<open>p\<close> and \<open>ps\<close> are its parameters \<open>page\<close> and \<open>page_size\<close>). The query is
  built first; \<open>count_documents\<close> is the first call on the database, and the database
  compiles the pattern there.
\<close>

definition list_submissions ::
  "env \<Rightarrow> int \<Rightarrow> int \<Rightarrow> string option \<Rightarrow> string option \<Rightarrow> string option \<Rightarrow> string option
     \<Rightarrow> db \<Rightarrow> (error + listing) \<times> db" where
  "list_submissions e p ps q status_filter start_date end_date st =
     (case (if truthy start_date \<or> truthy end_date then
              (case parse_bound e start_date of
                 Inl x \<Rightarrow> Inl x
               | Inr lo \<Rightarrow>
                   (case parse_bound e end_date of
                      Inl x \<Rightarrow> Inl x
                    | Inr hi \<Rightarrow> Inr (lo, hi)))
            else Inr (None, None)) of
        Inl x \<Rightarrow> (Inl (Unhandled x), st)
      | Inr (lo, hi) \<Rightarrow>
          (let st1 = logged (CountDocuments ''submission'') st
           in case (case q of
                      None \<Rightarrow> Some None
                    | Some pat \<Rightarrow>
                        if pat = [] then Some None
                        else map_option Some (mongo_regex_i e pat)) of
                None \<Rightarrow> (Inl (Unhandled OperationFailure), st1)
              | Some rx \<Rightarrow>
                  (let qy = \<lparr>query_status = (if truthy status_filter then status_filter else None),
                             query_or = rx, query_gte = lo, query_lte = hi\<rparr>;
                       found = filter (\<lambda>kd. doc_matches qy (snd kd)) (submission_coll st)
                   in if (p - 1) * ps < 0 then (Inl (Unhandled ValueError), st1)
                      else
                        (Inr \<lparr>items = map (\<lambda>kd. (str_oid (fst kd), snd kd))
                                        (cursor_limit ps
                                           (drop (nat ((p - 1) * ps)) (sort_desc found))),
                              total = length found, page = p, page_size = ps\<rparr>,
                         logged (Find ''submission'') st1))))"

record ack =
  success :: bool

text \<open>
  \<open>update_submission\<close>, the body of the handler of \<open>PATCH /api/admin/submissions/{id}\<close>:
  the note, when there is one and it is not empty, is pushed by a first \<open>update_one\<close>;
  a second \<open>update_one\<close> sets \<open>updated_at\<close> and, when given, the status.
\<close>

definition update_submission ::
  "timestamp \<Rightarrow> string \<Rightarrow> UpdateSubmission \<Rightarrow> db \<Rightarrow> (error + ack) \<times> db" where
  "update_submission now submission_id payload st =
     (case (if truthy (add_note payload) then
              (case ObjectId submission_id of
                 Inl x \<Rightarrow> Inl x
               | Inr k \<Rightarrow>
                   Inr (logged (UpdateOne ''submission'' k)
                          (st\<lparr>submission_coll :=
                                update_one k
                                  (\<lambda>d. d\<lparr>admin_notes := admin_notes d
                                             @ (case add_note payload of None \<Rightarrow> [] | Some n \<Rightarrow> [n])\<rparr>)
                                  (submission_coll st)\<rparr>)))
            else Inr st) of
        Inl x \<Rightarrow> (Inl (Unhandled x), st)
      | Inr st1 \<Rightarrow>
          (case ObjectId submission_id of
             Inl x \<Rightarrow> (Inl (Unhandled x), st1)
           | Inr k \<Rightarrow>
               (Inr \<lparr>success = True\<rparr>,
                logged (UpdateOne ''submission'' k)
                  (st1\<lparr>submission_coll :=
                         update_one k
                           (\<lambda>d. (case new_status payload of
                                    None \<Rightarrow> d\<lparr>updated_at := Some now\<rparr>
                                  | Some s \<Rightarrow> d\<lparr>updated_at := Some now, status := s\<rparr>))
                           (submission_coll st1)\<rparr>))))"

text \<open>\<open>delete_submission\<close>, the body of the handler of \<open>DELETE /api/admin/submissions/{id}\<close>.\<close>

definition delete_submission :: "string \<Rightarrow> db \<Rightarrow> (error + ack) \<times> db" where
  "delete_submission submission_id st =
     (case ObjectId submission_id of
        Inl x \<Rightarrow> (Inl (Unhandled x), st)
      | Inr k \<Rightarrow>
          (Inr \<lparr>success = True\<rparr>,
           logged (DeleteOne ''submission'' k)
             (st\<lparr>submission_coll := delete_one k (submission_coll st)\<rparr>)))"

text \<open>
  An admin route runs the dependency \<open>get_current_admin\<close> on the bearer token before
  the body of its handler; when the dependency raises, the body is not run.
\<close>

definition admin_route ::
  "env \<Rightarrow> timestamp \<Rightarrow> token \<Rightarrow> (db \<Rightarrow> (error + 'a) \<times> db) \<Rightarrow> db \<Rightarrow> (error + 'a) \<times> db" where
  "admin_route e now tok handler st =
     (case get_current_admin e now tok of
        Inl err \<Rightarrow> (Inl err, st)
      | Inr adm \<Rightarrow> handler st)"

text \<open>
  The specification's filter for the free-text query, in its own words: the query occurs
  as a case-insensitive literal substring of the name, the e-mail or the title.
\<close>

definition spec_contains_i :: "string \<Rightarrow> string \<Rightarrow> bool" where
  "spec_contains_i q s = sublist (lower q) (lower s)"

definition spec_free_text :: "string \<Rightarrow> submission_doc \<Rightarrow> bool" where
  "spec_free_text q d =
     (spec_contains_i q (name d) \<or> spec_contains_i q (email d)
      \<or> spec_contains_i q (novel_title d))"

text \<open>
  The specification's other two filters, in its own words: exact-match equality on the
  status field, when a status is asked for, and an inclusive range on the submission
  time by a lower and an upper bound, each when given.
\<close>

definition spec_status_filter :: "string option \<Rightarrow> submission_doc \<Rightarrow> bool" where
  "spec_status_filter sf d =
     (case sf of None \<Rightarrow> True | Some s \<Rightarrow> s = [] \<or> status_str (status d) = s)"

definition spec_date_range ::
  "timestamp option \<Rightarrow> timestamp option \<Rightarrow> submission_doc \<Rightarrow> bool" where
  "spec_date_range lo hi d =
     ((case lo of
         None \<Rightarrow> True
       | Some l \<Rightarrow> (case submitted_at d of None \<Rightarrow> False | Some t \<Rightarrow> l \<le> t))
      \<and> (case hi of
            None \<Rightarrow> True
          | Some h \<Rightarrow> (case submitted_at d of None \<Rightarrow> False | Some t \<Rightarrow> t \<le> h)))"

text \<open>
  The submissions that a request with free-text query \<open>q\<close> selects according to the
  specification: those that pass the three filters.
\<close>

definition spec_selected ::
  "string \<Rightarrow> string option \<Rightarrow> timestamp option \<Rightarrow> timestamp option
     \<Rightarrow> (oid \<times> submission_doc) list \<Rightarrow> (oid \<times> submission_doc) list" where
  "spec_selected q sf lo hi coll =
     filter (\<lambda>kd. spec_free_text q (snd kd) \<and> spec_status_filter sf (snd kd)
                  \<and> spec_date_range lo hi (snd kd)) coll"

text \<open>
  A date bound that makes \<open>list_submissions\<close> call \<open>datetime.fromisoformat\<close> on a string
  it does not parse: the bound is given, is not empty, and is no ISO date or time.
\<close>

definition unparseable :: "env \<Rightarrow> string option \<Rightarrow> bool" where
  "unparseable e d = (case d of None \<Rightarrow> False | Some s \<Rightarrow> s \<noteq> [] \<and> fromisoformat e s = None)"

text \<open>
  The bound that a date parameter of \<open>list_submissions\<close> sets when it parses: none when
  the parameter is absent or empty.
\<close>

definition date_bound :: "env \<Rightarrow> string option \<Rightarrow> timestamp option" where
  "date_bound e d =
     (case d of None \<Rightarrow> None | Some s \<Rightarrow> if s = [] then None else fromisoformat e s)"

section \<open>Example data\<close>

text \<open>
  An environment with no variable set, so that every setting has the default of the
  source; its e-mail validator accepts the strings with an \<open>@\<close>, its date parser knows
  one date, and its regular-expression engine rejects what the modelled fragment does
  not cover.
\<close>

definition example_env :: env where
  "example_env = \<lparr>environ = [],
     validate_email = (\<lambda>s. if CHR ''@'' \<in> set s then Some s else None),
     fromisoformat = (\<lambda>s. if s = ''2024-01-01'' then Some 1704067200000000 else None),
     regex_engine = (\<lambda>p. None)\<rparr>"

text \<open>An empty database whose driver will hand out the object id 1 next.\<close>

definition example_db :: db where
  "example_db = \<lparr>submission_coll = [], submission_files = [], notifications = [],
     next_oid = 1, oplog = []\<rparr>"

text \<open>
  A database holding two submissions: a pending one of an author named "abc" and a newer,
  approved one of an author named "Zoe".
\<close>

definition abc_doc :: submission_doc where
  "abc_doc = \<lparr>name = ''abc'', email = ''ann@example.com'', novel_title = ''Title'',
     synopsis = ''Synopsis'', message = None, file_url = None, file_key = None,
     status = Pending, admin_notes = [], submitted_at = Some 5, updated_at = None\<rparr>"

definition zoe_doc :: submission_doc where
  "zoe_doc = \<lparr>name = ''Zoe'', email = ''zoe@example.com'', novel_title = ''Novel'',
     synopsis = ''Synopsis'', message = None, file_url = None, file_key = None,
     status = Approved, admin_notes = [], submitted_at = Some 8, updated_at = Some 9\<rparr>"

definition abc_db :: db where
  "abc_db = \<lparr>submission_coll = [(1, abc_doc), (2, zoe_doc)], submission_files = [],
     notifications = [], next_oid = 3, oplog = []\<rparr>"

section \<open>Properties of the session tokens\<close>

lemma timegm_add_hours: "timegm (T + timedelta_hours h) = timegm T + h * 3600"
  by (simp add: timegm_def timedelta_hours_def)

lemma timegm_add_minutes: "timegm (T + timedelta_minutes m) = timegm T + m * 60"
  by (simp add: timegm_def timedelta_minutes_def)

text \<open>
  C1. Whenever validation of a bearer token fails, and in particular when the
  signature is invalid, the token is expired, the subject claim is missing or the
  subject does not match the configured admin e-mail case-insensitively, the failure is
  the one generic 401 error with detail "Could not validate credentials", and that error
  is the answer of the admin route, whose handler is not run.
\<close>

theorem get_current_admin_generic_failure:
  "(signature_invalid e tok \<or> token_expired now tok \<or> subject_missing tok
      \<or> subject_mismatch e tok
    \<longrightarrow> get_current_admin e now tok
        = Inl (HTTPException 401 ''Could not validate credentials''))
   \<and> (\<forall>err. get_current_admin e now tok = Inl err
        \<longrightarrow> err = HTTPException 401 ''Could not validate credentials''
            \<and> admin_route e now tok handler st
                = (Inl (HTTPException 401 ''Could not validate credentials''), st))"
  by (auto simp: get_current_admin_def jwt_decode_def credentials_exception_def
        signature_invalid_def token_expired_def subject_missing_def subject_mismatch_def
        token_claims_def admin_route_def
      split: token.splits option.splits jval.splits sum.splits if_splits)

text \<open>
  The four causes at concrete tokens: a forged signature, the login token thirteen hours
  after it was issued, a correctly signed token without a subject, and a correctly
  signed token for another subject.
\<close>

theorem get_current_admin_generic_failure_witness:
  "signature_invalid example_env
     (JWS ''HS256'' [(''sub'', JStr ''admin@arstudios.com'')] (Forged ''x''))
   \<and> get_current_admin example_env 0
        (JWS ''HS256'' [(''sub'', JStr ''admin@arstudios.com'')] (Forged ''x''))
      = Inl (HTTPException 401 ''Could not validate credentials'')
   \<and> token_expired (timedelta_hours 13) (login_token example_env 0)
   \<and> get_current_admin example_env (timedelta_hours 13) (login_token example_env 0)
      = Inl (HTTPException 401 ''Could not validate credentials'')
   \<and> subject_missing (create_access_token example_env 0 [] None)
   \<and> get_current_admin example_env 0 (create_access_token example_env 0 [] None)
      = Inl (HTTPException 401 ''Could not validate credentials'')
   \<and> subject_mismatch example_env
        (create_access_token example_env 0 [(''sub'', JStr ''eve@example.com'')] None)
   \<and> get_current_admin example_env 0
        (create_access_token example_env 0 [(''sub'', JStr ''eve@example.com'')] None)
      = Inl (HTTPException 401 ''Could not validate credentials'')"
proof -
  let ?forged = "JWS ''HS256'' [(''sub'', JStr ''admin@arstudios.com'')] (Forged ''x'')"
  let ?nosub = "create_access_token example_env 0 [] None"
  let ?eve = "create_access_token example_env 0 [(''sub'', JStr ''eve@example.com'')] None"
  have h1: "signature_invalid example_env ?forged"
    by (simp add: signature_invalid_def)
  have h2: "token_expired (timedelta_hours 13) (login_token example_env 0)"
    by (simp add: token_expired_def token_claims_def login_token_def create_access_token_def
        jwt_encode_def Let_def timegm_def timedelta_hours_def timedelta_minutes_def
        ACCESS_TOKEN_EXPIRE_MINUTES_def)
  have h3: "subject_missing ?nosub"
    by (simp add: subject_missing_def token_claims_def create_access_token_def jwt_encode_def
        Let_def)
  have h4: "subject_mismatch example_env ?eve"
    by (simp add: subject_mismatch_def token_claims_def create_access_token_def jwt_encode_def
        Let_def ADMIN_EMAIL_def getenv_def example_env_def lower_def lower_char_def)
  show ?thesis
    using h1 h2 h3 h4
      get_current_admin_generic_failure [of example_env ?forged 0]
      get_current_admin_generic_failure
        [of example_env "login_token example_env 0" "timedelta_hours 13"]
      get_current_admin_generic_failure [of example_env ?nosub 0]
      get_current_admin_generic_failure [of example_env ?eve 0]
    by blast
qed

text \<open>
  C2. The token handed out at login at time T is accepted one hour later and refused
  thirteen hours later: the expiry it carries is T plus twelve hours (in whole seconds,
  as the token format has it).
\<close>

theorem login_token_lifetime:
  "get_current_admin e (T + timedelta_hours 1) (login_token e T)
     = Inr \<lparr>admin_email = ADMIN_EMAIL e\<rparr>
   \<and> get_current_admin e (T + timedelta_hours 13) (login_token e T)
     = Inl (HTTPException 401 ''Could not validate credentials'')
   \<and> map_of (token_claims (login_token e T)) ''exp''
     = Some (JNum (timegm (T + timedelta_hours 12)))"
  by (simp add: get_current_admin_def jwt_decode_def login_token_def create_access_token_def
      jwt_encode_def ALGORITHM_def ACCESS_TOKEN_EXPIRE_MINUTES_def timegm_add_hours
      timegm_add_minutes token_claims_def credentials_exception_def Let_def)

section \<open>Properties of object ids\<close>

lemma length_to_hex: "length (to_hex k n) = k"
  by (induction k arbitrary: n) auto

lemma hex_val_hex_digit: "d < 16 \<Longrightarrow> hex_val (hex_digit d) = Some d"
  by (auto simp: hex_val_def hex_digit_def Let_def)

lemma from_hex_snoc:
  "from_hex acc (xs @ [c]) =
     (case from_hex acc xs of
        None \<Rightarrow> None
      | Some m \<Rightarrow> (case hex_val c of None \<Rightarrow> None | Some d \<Rightarrow> Some (m * 16 + d)))"
  by (induction xs arbitrary: acc) (auto split: option.splits)

lemma from_hex_to_hex: "from_hex 0 (to_hex k n) = Some (n mod 16 ^ k)"
proof (induction k arbitrary: n)
  case 0
  show ?case by simp
next
  case (Suc k)
  have "n div 16 mod 16 ^ k * 16 + n mod 16 = n mod (16 * 16 ^ k)"
    by (simp add: mod_mult2_eq)
  with Suc show ?case
    by (simp add: from_hex_snoc hex_val_hex_digit)
qed

text \<open>The string of an object id is read back as that object id.\<close>

lemma ObjectId_str_oid: "ObjectId (str_oid k) = Inr k"
proof -
  have "unat k < 2 ^ 96"
    using unsigned_less [of k] by simp
  then have "unat k mod 16 ^ 24 = unat k"
    by simp
  then show ?thesis
    by (simp add: ObjectId_def str_oid_def length_to_hex from_hex_to_hex)
qed

section \<open>Properties of creating a submission\<close>

text \<open>
  C3. A create-submission request whose attached file has a name that does not end in
  ".pdf", letters compared without case, fails with the 400 error, and the database is
  left as it was: no submission, stored file or notification is created, and no call on
  the database is made.
\<close>

theorem submit_project_rejects_non_pdf:
  "\<not> endswith (lower (filename f)) ''.pdf''
   \<Longrightarrow> submit_project e t1 t2 nm em title syn msg (Some f) st
       = (Inl (HTTPException 400 ''Only PDF uploads are allowed''), st)"
  by (simp add: submit_project_def)

theorem submit_project_rejects_non_pdf_witness:
  "\<not> endswith (lower ''novel.DOCX'') ''.pdf''
   \<and> submit_project example_env 5 6 ''Ann'' ''ann@example.com'' ''Title'' ''Synopsis'' None
        (Some \<lparr>filename = ''novel.DOCX'', content = [1, 2, 3], content_type = None\<rparr>)
        example_db
      = (Inl (HTTPException 400 ''Only PDF uploads are allowed''), example_db)"
proof -
  have h: "\<not> endswith (lower (filename \<lparr>filename = ''novel.DOCX'', content = [1, 2, 3 :: byte],
      content_type = None\<rparr>)) ''.pdf''"
    by (simp add: endswith_def lower_def lower_char_def char_of_eq_iff)
  show ?thesis
    using h submit_project_rejects_non_pdf [OF h, of example_env 5 6 "''Ann''"
        "''ann@example.com''" "''Title''" "''Synopsis''" None example_db]
    by simp
qed

text \<open>
  C4. A create-submission request with an attached PDF is refused with a 400 error
  exactly when the file is longer than 10 MiB. A file of at most 10 MiB is accepted:
  when the e-mail address is valid and the database takes the three documents, the
  request succeeds.
\<close>

theorem submit_project_size_limit:
  "endswith (lower (filename f)) ''.pdf'' \<Longrightarrow>
   ((\<exists>detail. fst (submit_project e t1 t2 nm em title syn msg (Some f) st)
        = Inl (HTTPException 400 detail))
    \<longleftrightarrow> length (content f) > 10 * 1024 * 1024)
   \<and> (length (content f) \<le> 10 * 1024 * 1024
        \<and> validate_email e em \<noteq> None
        \<and> map_of (submission_files st) (next_oid st) = None
        \<and> map_of (submission_coll st) (next_oid st + 1) = None
        \<and> map_of (notifications st) (next_oid st + 2) = None
      \<longrightarrow> fst (submit_project e t1 t2 nm em title syn msg (Some f) st)
          = Inr \<lparr>submit_success = True, inserted_id = str_oid (next_oid st + 1)\<rparr>)"
  by (auto simp: submit_project_def MAX_UPLOAD_def Submission_init_def
      create_document_file_def create_document_submission_def
      create_document_notification_def Let_def logged_def add.commute [of "next_oid st" 2]
      split: option.splits prod.splits sum.splits if_splits)

text \<open>A file of exactly 10 MiB is accepted, one of 10 MiB and a byte is refused.\<close>

theorem submit_project_size_limit_witness:
  "endswith (lower ''novel.PDF'') ''.pdf''
   \<and> fst (submit_project example_env 5 6 ''Ann'' ''ann@example.com'' ''Title'' ''Synopsis'' None
        (Some \<lparr>filename = ''novel.PDF'', content = replicate (10 * 1024 * 1024) 0,
          content_type = None\<rparr>) example_db)
      = Inr \<lparr>submit_success = True, inserted_id = str_oid 2\<rparr>
   \<and> fst (submit_project example_env 5 6 ''Ann'' ''ann@example.com'' ''Title'' ''Synopsis'' None
        (Some \<lparr>filename = ''novel.PDF'', content = replicate (10 * 1024 * 1024 + 1) 0,
          content_type = None\<rparr>) example_db)
      = Inl (HTTPException 400 ''File too large (max 10MB in demo)'')"
proof -
  let ?ok = "\<lparr>filename = ''novel.PDF'', content = replicate (10 * 1024 * 1024) (0 :: byte),
          content_type = None\<rparr>"
  let ?big = "\<lparr>filename = ''novel.PDF'', content = replicate (10 * 1024 * 1024 + 1) (0 :: byte),
          content_type = None\<rparr>"
  have h: "endswith (lower ''novel.PDF'') ''.pdf''"
    by (simp add: endswith_def lower_def lower_char_def char_of_eq_iff)
  have v: "validate_email example_env ''ann@example.com'' \<noteq> None"
    by (simp add: example_env_def)
  have big: "fst (submit_project example_env 5 6 ''Ann'' ''ann@example.com'' ''Title''
        ''Synopsis'' None (Some ?big) example_db)
      = Inl (HTTPException 400 ''File too large (max 10MB in demo)'')"
    using h by (simp add: submit_project_def MAX_UPLOAD_def)
  show ?thesis
    using h v big
      submit_project_size_limit [of ?ok example_env 5 6 "''Ann''" "''ann@example.com''"
        "''Title''" "''Synopsis''" None example_db]
    by (simp add: example_db_def)
qed

text \<open>
  C5. For a create-submission request without a file and with a valid e-mail address,
  the submission stored has status Pending, no notes, neither \<open>file_url\<close> nor
  \<open>file_key\<close>, and \<open>submitted_at\<close> set to the time of creation; it is stored under
  the identifier that a successful request returns.
\<close>

theorem submit_project_without_file:
  "validate_email e em = Some em' \<Longrightarrow> map_of (submission_coll st) (next_oid st) = None \<Longrightarrow>
   map_of (submission_coll (snd (submit_project e t1 t2 nm em title syn msg None st)))
     (next_oid st)
   = Some \<lparr>name = nm, email = em', novel_title = title, synopsis = syn, message = msg,
       file_url = None, file_key = None, status = Pending, admin_notes = [],
       submitted_at = Some t1, updated_at = None\<rparr>
   \<and> (\<forall>r. fst (submit_project e t1 t2 nm em title syn msg None st) = Inr r
        \<longrightarrow> ObjectId (inserted_id r) = Inr (next_oid st))"
  by (auto simp: submit_project_def Submission_init_def ObjectId_str_oid
      create_document_submission_def create_document_notification_def Let_def logged_def
      Submission.extend_def submission_doc.fields_def map_add_def
      split: option.splits prod.splits sum.splits if_splits)

theorem submit_project_without_file_witness:
  "validate_email example_env ''ann@example.com'' = Some ''ann@example.com''
   \<and> map_of (submission_coll example_db) (next_oid example_db) = None
   \<and> map_of (submission_coll (snd (submit_project example_env 5 6 ''Ann'' ''ann@example.com''
          ''Title'' ''Synopsis'' None None example_db))) 1
      = Some \<lparr>name = ''Ann'', email = ''ann@example.com'', novel_title = ''Title'',
          synopsis = ''Synopsis'', message = None, file_url = None, file_key = None,
          status = Pending, admin_notes = [], submitted_at = Some 5, updated_at = None\<rparr>
   \<and> fst (submit_project example_env 5 6 ''Ann'' ''ann@example.com''
          ''Title'' ''Synopsis'' None None example_db)
      = Inr \<lparr>submit_success = True, inserted_id = str_oid 1\<rparr>
   \<and> ObjectId (str_oid 1) = Inr 1"
proof -
  have v: "validate_email example_env ''ann@example.com'' = Some ''ann@example.com''"
    by (simp add: example_env_def)
  have f: "map_of (submission_coll example_db) (next_oid example_db) = None"
    by (simp add: example_db_def)
  have r: "fst (submit_project example_env 5 6 ''Ann'' ''ann@example.com''
          ''Title'' ''Synopsis'' None None example_db)
      = Inr \<lparr>submit_success = True, inserted_id = str_oid 1\<rparr>"
    by (simp add: submit_project_def Submission_init_def v create_document_submission_def
        create_document_notification_def Let_def logged_def example_db_def)
  show ?thesis
    using v f r
      submit_project_without_file [OF v f, of 5 6 "''Ann''" "''Title''" "''Synopsis''" None]
    by (simp add: example_db_def)
qed

section \<open>Properties of the Base64 encoding\<close>

lemma b64_val_b64_char: "i < 64 \<Longrightarrow> b64_val (b64_char i) = Some i"
  by (auto simp: b64_val_def b64_char_def Let_def)

lemma b64_val_pad: "b64_val (CHR ''='') = None"
  by (simp add: b64_val_def)

lemma b64_char_not_pad: "i < 64 \<Longrightarrow> b64_char i \<noteq> CHR ''=''"
  using b64_val_b64_char [of i] b64_val_pad by auto

lemma byte_bound: "unat (a :: byte) < 256"
  using unsigned_less [of a] by simp

lemma byte_of_nat_eq: "m mod 256 = unat (b :: byte) \<Longrightarrow> of_nat m = b"
proof -
  assume h: "m mod 256 = unat b"
  have "unat (of_nat m :: byte) = m mod 256"
    by (simp add: unat_of_nat)
  with h have "unat (of_nat m :: byte) = unat b"
    by simp
  then show ?thesis
    by (simp only: word_unat_eq_iff)
qed

lemma div_add_small: "r < d \<Longrightarrow> (q * d + r) div d = (q :: nat)"
  by simp

lemma mod_add_small: "r < d \<Longrightarrow> (q * d + r) mod d = (r :: nat)"
  by simp

lemma sextets_recombine:
  "n div 262144 * 262144 + n div 4096 mod 64 * 4096 + n div 64 mod 64 * 64 + n mod 64 = (n :: nat)"
proof -
  have a: "n div 4096 = n div 64 div 64" and b: "n div 262144 = n div 64 div 64 div 64"
    by (simp_all add: div_mult2_eq)
  have "n = n div 64 * 64 + n mod 64" by simp
  moreover have "n div 64 = n div 64 div 64 * 64 + n div 64 mod 64" by simp
  moreover have "n div 64 div 64 = n div 64 div 64 div 64 * 64 + n div 64 div 64 mod 64" by simp
  ultimately show ?thesis unfolding a b by linarith
qed

lemma three_bytes_nat:
  fixes a b c :: nat
  assumes "a < 256" "b < 256" "c < 256"
  defines "n \<equiv> a * 65536 + b * 256 + c"
  shows "n div 262144 < 64" and "n div 65536 = a" and "n div 256 mod 256 = b"
    and "n mod 256 = c"
proof -
  show "n div 262144 < 64"
    using assms(1-3) unfolding n_def by (simp add: div_less_iff_less_mult)
  have r: "b * 256 + c < 65536"
    using assms(2,3) by linarith
  have n1: "n = a * 65536 + (b * 256 + c)"
    unfolding n_def by (simp only: add.assoc)
  show "n div 65536 = a"
    unfolding n1 using r by (rule div_add_small)
  have n2: "n = (a * 256 + b) * 256 + c"
    unfolding n_def by (simp only: add_mult_distrib mult.assoc)
  have d: "n div 256 = a * 256 + b"
    unfolding n2 using assms(3) by (rule div_add_small)
  show "n div 256 mod 256 = b"
    unfolding d using assms(2) by (rule mod_add_small)
  show "n mod 256 = c"
    unfolding n2 using assms(3) by (rule mod_add_small)
qed

lemma decode_quad:
  assumes "s1 < 64" "s2 < 64" "s3 < 64" "s4 < 64"
  shows "b64decode_groups (b64_char s1 # b64_char s2 # b64_char s3 # b64_char s4 # rest) =
     (case b64decode_groups rest of
        None \<Rightarrow> None
      | Some bs \<Rightarrow>
          Some (of_nat ((s1 * 262144 + s2 * 4096 + s3 * 64 + s4) div 65536)
                # of_nat ((s1 * 262144 + s2 * 4096 + s3 * 64 + s4) div 256)
                # of_nat (s1 * 262144 + s2 * 4096 + s3 * 64 + s4) # bs))"
  using assms by (simp add: b64_val_b64_char b64_char_not_pad Let_def)

lemma decode_pad1:
  assumes "s1 < 64" "s2 < 64" "s3 < 64"
  shows "b64decode_groups [b64_char s1, b64_char s2, b64_char s3, CHR ''=''] =
     Some [of_nat ((s1 * 4096 + s2 * 64 + s3) div 4 div 256),
           of_nat ((s1 * 4096 + s2 * 64 + s3) div 4)]"
  using assms by (simp add: b64_val_b64_char b64_char_not_pad Let_def)

lemma decode_pad2:
  assumes "s1 < 64" "s2 < 64"
  shows "b64decode_groups [b64_char s1, b64_char s2, CHR ''='', CHR ''=''] =
     Some [of_nat ((s1 * 64 + s2) div 16)]"
  using assms by (simp add: b64_val_b64_char)

lemma one_byte_nat:
  fixes a :: nat
  assumes "a < 256"
  shows "a * 16 div 64 < 64" and "(a * 16 div 64 * 64 + a * 16 mod 64) div 16 = a"
proof -
  show "a * 16 div 64 < 64"
    using assms by (simp add: div_less_iff_less_mult)
  have "a * 16 div 64 * 64 + a * 16 mod 64 = a * 16"
    by (rule div_mult_mod_eq)
  then show "(a * 16 div 64 * 64 + a * 16 mod 64) div 16 = a"
    by (simp only: nonzero_mult_div_cancel_right)
qed

lemma two_bytes_nat:
  fixes a b :: nat
  assumes "a < 256" "b < 256"
  defines "n \<equiv> (a * 256 + b) * 4"
  shows "n div 4096 < 64"
    and "(n div 4096 * 4096 + n div 64 mod 64 * 64 + n mod 64) div 4 = a * 256 + b"
    and "(a * 256 + b) div 256 = a" and "(a * 256 + b) mod 256 = b"
proof -
  show "n div 4096 < 64"
    using assms(1,2) unfolding n_def by (simp add: div_less_iff_less_mult)
  have e: "n div 4096 = n div 64 div 64"
    by (simp add: div_mult2_eq)
  have "n = n div 64 * 64 + n mod 64" by simp
  moreover have "n div 64 = n div 64 div 64 * 64 + n div 64 mod 64" by simp
  ultimately have "n div 4096 * 4096 + n div 64 mod 64 * 64 + n mod 64 = n"
    unfolding e by linarith
  then show "(n div 4096 * 4096 + n div 64 mod 64 * 64 + n mod 64) div 4 = a * 256 + b"
    unfolding n_def by simp
  show "(a * 256 + b) div 256 = a"
    using assms(2) by (rule div_add_small)
  show "(a * 256 + b) mod 256 = b"
    using assms(2) by (rule mod_add_small)
qed

lemma b64decode_groups_b64encode: "b64decode_groups (b64encode bs) = Some bs"
proof (induction bs rule: b64encode.induct)
  case 1
  show ?case by simp
next
  case (2 a)
  define x where "x = unat a"
  have x: "x < 256" unfolding x_def by (rule byte_bound)
  have s: "x * 16 div 64 < 64" "x * 16 mod 64 < 64"
    using one_byte_nat(1) [OF x] by simp_all
  have "b64decode_groups (b64encode [a])
      = Some [of_nat ((x * 16 div 64 * 64 + x * 16 mod 64) div 16)]"
    unfolding b64encode.simps Let_def x_def [symmetric] by (rule decode_pad2 [OF s])
  also have "\<dots> = Some [a]"
    unfolding one_byte_nat(2) [OF x] by (simp add: x_def)
  finally show ?case .
next
  case (3 a b)
  define x where "x = unat a"
  define y where "y = unat b"
  define n where "n = (x * 256 + y) * 4"
  have x: "x < 256" and y: "y < 256" unfolding x_def y_def by (rule byte_bound)+
  note t = two_bytes_nat [OF x y, folded n_def]
  have s: "n div 4096 < 64" "n div 64 mod 64 < 64" "n mod 64 < 64"
    using t(1) by simp_all
  have "b64decode_groups (b64encode [a, b])
      = Some [of_nat ((n div 4096 * 4096 + n div 64 mod 64 * 64 + n mod 64) div 4 div 256),
              of_nat ((n div 4096 * 4096 + n div 64 mod 64 * 64 + n mod 64) div 4)]"
    unfolding b64encode.simps Let_def x_def [symmetric] y_def [symmetric] n_def [symmetric]
    by (rule decode_pad1 [OF s])
  also have "\<dots> = Some [of_nat x, of_nat (x * 256 + y)]"
    unfolding t(2) t(3) ..
  also have "\<dots> = Some [a, b]"
  proof -
    have "(of_nat (x * 256 + y) :: byte) = b"
      by (rule byte_of_nat_eq) (use t(4) in \<open>simp only: y_def\<close>)
    then show ?thesis by (simp add: x_def)
  qed
  finally show ?case .
next
  case (4 a b c rest)
  define x where "x = unat a"
  define y where "y = unat b"
  define z where "z = unat c"
  define n where "n = x * 65536 + y * 256 + z"
  have x: "x < 256" and y: "y < 256" and z: "z < 256"
    unfolding x_def y_def z_def by (rule byte_bound)+
  note t = three_bytes_nat [OF x y z, folded n_def]
  have s: "n div 262144 < 64" "n div 4096 mod 64 < 64" "n div 64 mod 64 < 64" "n mod 64 < 64"
    using t(1) by simp_all
  have e: "b64encode (a # b # c # rest)
      = b64_char (n div 262144) # b64_char (n div 4096 mod 64) # b64_char (n div 64 mod 64)
        # b64_char (n mod 64) # b64encode rest"
    unfolding n_def x_def y_def z_def by (simp add: Let_def)
  have "b64decode_groups (b64encode (a # b # c # rest))
      = Some (of_nat (n div 65536) # of_nat (n div 256) # of_nat n # rest)"
    unfolding e decode_quad [OF s] sextets_recombine using 4 by simp
  also have "\<dots> = Some (a # b # c # rest)"
  proof -
    have "(of_nat (n div 65536) :: byte) = a"
      unfolding t(2) by (simp add: x_def)
    moreover have "(of_nat (n div 256) :: byte) = b"
      by (rule byte_of_nat_eq) (use t(3) in \<open>simp only: y_def\<close>)
    moreover have "(of_nat n :: byte) = c"
      by (rule byte_of_nat_eq) (use t(4) in \<open>simp only: z_def\<close>)
    ultimately show ?thesis by simp
  qed
  finally show ?case .
qed

lemma b64encode_alphabet: "c \<in> set (b64encode bs) \<Longrightarrow> b64_val c \<noteq> None \<or> c = CHR ''=''"
proof (induction bs rule: b64encode.induct)
  case 1
  then show ?case by simp
next
  case (2 a)
  have "unat a * 16 div 64 < 64"
    using one_byte_nat(1) [OF byte_bound [of a]] .
  then show ?case
    using 2 by (auto simp: Let_def b64_val_b64_char simp del: b64_val_def)
next
  case (3 a b)
  have "(unat a * 256 + unat b) * 4 div 4096 < 64"
    using two_bytes_nat(1) [OF byte_bound [of a] byte_bound [of b]] .
  then show ?case
    using 3 by (auto simp: Let_def b64_val_b64_char)
next
  case (4 a b c rest)
  have "(unat a * 65536 + unat b * 256 + unat c) div 262144 < 64"
    using three_bytes_nat(1) [OF byte_bound [of a] byte_bound [of b] byte_bound [of c]] .
  then show ?case
    using 4 by (auto simp: Let_def b64_val_b64_char)
qed

text \<open>Decoding the encoding of a byte sequence gives the byte sequence back.\<close>

lemma b64decode_b64encode: "b64decode (b64encode bs) = Some bs"
proof -
  have "filter (\<lambda>c. b64_val c \<noteq> None \<or> c = CHR ''='') (b64encode bs) = b64encode bs"
    by (rule filter_True) (use b64encode_alphabet in blast)
  then show ?thesis
    by (simp only: b64decode_def b64decode_groups_b64encode)
qed

section \<open>Properties of the stored file\<close>

lemmas submit_defs = submit_project_def Submission_init_def create_document_file_def
  create_document_submission_def create_document_notification_def Let_def logged_def

lemma submit_project_accepted_file:
  assumes a: "fst (submit_project e t1 t2 nm em title syn msg (Some f) st) = Inr r"
  shows "endswith (lower (filename f)) ''.pdf''"
    and "\<not> length (content f) > MAX_UPLOAD"
    and "map_of (submission_files st) (next_oid st) = None"
    and "validate_email e em \<noteq> None"
    and "map_of (submission_coll st) (next_oid st + 1) = None"
    and "map_of (notifications st) (next_oid st + 1 + 1) = None"
proof -
  show c1: "endswith (lower (filename f)) ''.pdf''"
    using a by (rule_tac ccontr) (simp add: submit_project_def)
  show c2: "\<not> length (content f) > MAX_UPLOAD"
    using a c1 by (rule_tac ccontr) (simp add: submit_project_def)
  show c3: "map_of (submission_files st) (next_oid st) = None"
    using a c1 c2 by (rule_tac ccontr) (auto simp: submit_defs)
  show c4: "validate_email e em \<noteq> None"
    using a c1 c2 c3 by (rule_tac ccontr) (simp add: submit_defs)
  show c5: "map_of (submission_coll st) (next_oid st + 1) = None"
    using a c1 c2 c3 c4 by (rule_tac ccontr) (auto simp: submit_defs)
  show "map_of (notifications st) (next_oid st + 1 + 1) = None"
    using a c1 c2 c3 c4 c5 by (rule_tac ccontr) (auto simp: submit_defs)
qed

text \<open>
  C6. When create-submission has accepted a request with a PDF, fetching the stored file
  under the identifier recorded on the submission as \<open>file_key\<close> returns exactly the
  uploaded bytes, served with the stored MIME type (the upload's content type, or
  \<open>application/pdf\<close> when it gave none).
\<close>

theorem stored_file_round_trip:
  "fst (submit_project e t1 t2 nm em title syn msg (Some f) st) = Inr r \<Longrightarrow>
   fst (get_file (str_oid (next_oid st))
          (snd (submit_project e t1 t2 nm em title syn msg (Some f) st)))
     = Inr \<lparr>body = content f,
            media_type = (case content_type f of
                            None \<Rightarrow> ''application/pdf''
                          | Some m \<Rightarrow> if m = [] then ''application/pdf'' else m)\<rparr>
   \<and> map_option file_key
         (map_of (submission_coll (snd (submit_project e t1 t2 nm em title syn msg (Some f) st)))
            (next_oid st + 1))
       = Some (Some (str_oid (next_oid st)))
   \<and> ObjectId (inserted_id r) = Inr (next_oid st + 1)"
proof -
  assume a: "fst (submit_project e t1 t2 nm em title syn msg (Some f) st) = Inr r"
  note c = submit_project_accepted_file [OF a]
  from c(4) obtain em' where v: "validate_email e em = Some em'"
    by auto
  show ?thesis
    using a c(1,2,3,5,6) v
    by (auto simp: submit_defs get_file_def ObjectId_str_oid b64decode_b64encode
        Submission.extend_def submission_doc.fields_def map_add_def)
qed

theorem stored_file_round_trip_witness:
  "fst (submit_project example_env 5 6 ''Ann'' ''ann@example.com'' ''Title'' ''Synopsis'' None
        (Some \<lparr>filename = ''novel.pdf'', content = [37, 80, 68, 70],
          content_type = Some ''application/pdf''\<rparr>) example_db)
     = Inr \<lparr>submit_success = True, inserted_id = str_oid 2\<rparr>
   \<and> fst (get_file (str_oid 1)
        (snd (submit_project example_env 5 6 ''Ann'' ''ann@example.com'' ''Title'' ''Synopsis''
           None (Some \<lparr>filename = ''novel.pdf'', content = [37, 80, 68, 70],
             content_type = Some ''application/pdf''\<rparr>) example_db)))
     = Inr \<lparr>body = [37, 80, 68, 70], media_type = ''application/pdf''\<rparr>"
proof -
  let ?f = "\<lparr>filename = ''novel.pdf'', content = [37, 80, 68, 70 :: byte],
          content_type = Some ''application/pdf''\<rparr>"
  have p: "endswith (lower ''novel.pdf'') ''.pdf''"
    by (simp add: endswith_def lower_def lower_char_def char_of_eq_iff)
  have r: "fst (submit_project example_env 5 6 ''Ann'' ''ann@example.com'' ''Title''
        ''Synopsis'' None (Some ?f) example_db)
      = Inr \<lparr>submit_success = True, inserted_id = str_oid 2\<rparr>"
    using p by (simp add: submit_project_def MAX_UPLOAD_def Submission_init_def
        create_document_file_def create_document_submission_def
        create_document_notification_def Let_def logged_def example_db_def example_env_def)
  show ?thesis
    using r stored_file_round_trip [OF r] by (simp add: example_db_def)
qed

section \<open>Properties of the admin operations\<close>

lemma update_one_absent: "map_of coll k = None \<Longrightarrow> update_one k f coll = coll"
  by (induction coll) (auto split: if_splits)

lemma delete_one_absent: "map_of coll k = None \<Longrightarrow> delete_one k coll = coll"
  by (induction coll) (auto split: if_splits)

text \<open>
  C10. For a well-formed submission id that no stored submission has, the update
  operation returns the acknowledgment with \<open>success\<close> true and leaves every collection
  as it was, as the delete operation does: no not-found error is raised, and the only
  calls made on the database are the \<open>update_one\<close> calls (the \<open>delete_one\<close> call), with
  no lookup before them.
\<close>

theorem update_submission_absent_id:
  "ObjectId submission_id = Inr k \<Longrightarrow> map_of (submission_coll st) k = None \<Longrightarrow>
   update_submission now submission_id payload st
     = (Inr \<lparr>success = True\<rparr>,
        st\<lparr>oplog := oplog st
              @ (if truthy (add_note payload) then [UpdateOne ''submission'' k] else [])
              @ [UpdateOne ''submission'' k]\<rparr>)
   \<and> delete_submission submission_id st
     = (Inr \<lparr>success = True\<rparr>, st\<lparr>oplog := oplog st @ [DeleteOne ''submission'' k]\<rparr>)"
  by (simp add: update_submission_def delete_submission_def logged_def update_one_absent
      delete_one_absent)

theorem update_submission_absent_id_witness:
  "ObjectId (str_oid 7) = Inr 7 \<and> map_of (submission_coll example_db) 7 = None
   \<and> update_submission 9 (str_oid 7) \<lparr>new_status = Some Approved, add_note = Some ''ok''\<rparr>
        example_db
     = (Inr \<lparr>success = True\<rparr>,
        example_db\<lparr>oplog := [UpdateOne ''submission'' 7, UpdateOne ''submission'' 7]\<rparr>)
   \<and> delete_submission (str_oid 7) example_db
     = (Inr \<lparr>success = True\<rparr>, example_db\<lparr>oplog := [DeleteOne ''submission'' 7]\<rparr>)"
proof -
  have i: "ObjectId (str_oid 7) = Inr 7"
    by (rule ObjectId_str_oid)
  have a: "map_of (submission_coll example_db) 7 = None"
    by (simp add: example_db_def)
  show ?thesis
    using i a update_submission_absent_id [OF i a, of 9
        "\<lparr>new_status = Some Approved, add_note = Some ''ok''\<rparr>"]
    by (simp add: truthy_def example_db_def)
qed

text \<open>
  C8, as amended. When a start or end date is given, is not empty and is not parseable,
  the list operation fails with the \<open>ValueError\<close> of \<open>datetime.fromisoformat\<close>, which no
  handler catches (a 500, not a 400), and it fails before any call on the database: the
  state, call log included, is as it was.
\<close>

theorem list_submissions_bad_date:
  "unparseable e start_date \<or> unparseable e end_date \<Longrightarrow>
   list_submissions e p ps q status_filter start_date end_date st
     = (Inl (Unhandled ValueError), st)"
  by (auto simp: list_submissions_def unparseable_def parse_bound_def truthy_def
      split: option.splits)

theorem list_submissions_bad_date_witness:
  "unparseable example_env (Some ''not-a-date'')
   \<and> list_submissions example_env 1 10 None None (Some ''not-a-date'') None example_db
      = (Inl (Unhandled ValueError), example_db)
   \<and> unparseable example_env (Some ''2024-13-45'')
   \<and> list_submissions example_env 1 10 None None (Some ''2024-01-01'') (Some ''2024-13-45'')
        example_db
      = (Inl (Unhandled ValueError), example_db)"
proof -
  have u1: "unparseable example_env (Some ''not-a-date'')"
    by (simp add: unparseable_def example_env_def)
  have u2: "unparseable example_env (Some ''2024-13-45'')"
    by (simp add: unparseable_def example_env_def)
  show ?thesis
    using u1 u2
      list_submissions_bad_date [of example_env "Some ''not-a-date''" None 1 10 None None
        example_db]
      list_submissions_bad_date [of example_env "Some ''2024-01-01''" "Some ''2024-13-45''"
        1 10 None None example_db]
    by simp
qed

text \<open>
  The claim as stated fails: the error for an unparseable date is answered with 500, and
  an empty date string, which is not parseable either, is taken as absent and the
  listing succeeds.
\<close>

theorem list_submissions_bad_date_counterexample:
  "fromisoformat example_env ''not-a-date'' = None
   \<and> fst (list_submissions example_env 1 10 None None (Some ''not-a-date'') None example_db)
      = Inl (Unhandled ValueError)
   \<and> status_code (Unhandled ValueError) = 500
   \<and> fromisoformat example_env [] = None
   \<and> fst (list_submissions example_env 1 10 None None (Some []) None example_db)
      = Inr \<lparr>items = [], total = 0, page = 1, page_size = 10\<rparr>"
  by (simp add: list_submissions_def parse_bound_def truthy_def example_env_def example_db_def
      logged_def doc_matches_def sort_desc_def cursor_limit_def)

lemma parse_simple_plain: "set q \<inter> set rx_meta = {} \<Longrightarrow> parse_simple q = Some (map Lit q)"
  by (induction q) (auto simp: rx_meta_def)

lemma rx_prefix_Lit: "rx_prefix (map Lit q) s = prefix (lower q) (lower s)"
proof (induction q arbitrary: s)
  case Nil
  show ?case by (simp add: lower_def)
next
  case (Cons x q)
  show ?case
  proof (cases s)
    case Nil
    then show ?thesis by (simp add: lower_def)
  next
    case (Cons c cs)
    with Cons.IH [of cs] show ?thesis by (simp add: lower_def)
  qed
qed

lemma rx_search_Lit: "rx_search (map Lit q) s = sublist (lower q) (lower s)"
proof (induction s)
  case Nil
  show ?case by (cases q) (simp_all add: lower_def)
next
  case (Cons c cs)
  have "sublist (lower q) (lower (c # cs))
      = (prefix (lower q) (lower (c # cs)) \<or> sublist (lower q) (lower cs))"
    by (simp add: lower_def sublist_Cons_right)
  with Cons show ?case
    by (simp add: rx_prefix_Lit)
qed

lemma mongo_regex_plain:
  "set q \<inter> set rx_meta = {} \<Longrightarrow> mongo_regex_i e q = Some (spec_contains_i q)"
  by (simp add: mongo_regex_i_def parse_simple_plain spec_contains_i_def rx_search_Lit fun_eq_iff)

section \<open>Properties of the required fields\<close>

text \<open>
  C9, as amended. A create-submission request whose e-mail address the validation of the
  \<open>Submission\<close> model refuses fails with an error and creates neither a submission nor a
  notification; without an attached file the error is the model's validation error,
  which the handler does not catch, and the database is left as it was. The name, the
  title and the synopsis are not checked: a request without a file in which all three
  are empty succeeds when the e-mail address is valid and the database takes the two
  documents.
\<close>

theorem submit_project_refused_email:
  "(validate_email e em = None \<longrightarrow>
      (\<exists>err. fst (submit_project e t1 t2 nm em title syn msg upl st) = Inl err)
      \<and> submission_coll (snd (submit_project e t1 t2 nm em title syn msg upl st))
          = submission_coll st
      \<and> notifications (snd (submit_project e t1 t2 nm em title syn msg upl st))
          = notifications st
      \<and> submit_project e t1 t2 nm em title syn msg None st
          = (Inl (Unhandled PydanticValidationError), st))
   \<and> (validate_email e em \<noteq> None \<and> map_of (submission_coll st) (next_oid st) = None
        \<and> map_of (notifications st) (next_oid st + 1) = None
      \<longrightarrow> fst (submit_project e t1 t2 [] em [] [] msg None st)
          = Inr \<lparr>submit_success = True, inserted_id = str_oid (next_oid st)\<rparr>)"
proof -
  have a: "validate_email e em = None \<Longrightarrow>
      submit_project e t1 t2 nm em title syn msg None st
          = (Inl (Unhandled PydanticValidationError), st)"
    by (simp add: submit_project_def Submission_init_def)
  have b: "validate_email e em = None \<Longrightarrow>
      (\<exists>err. fst (submit_project e t1 t2 nm em title syn msg upl st) = Inl err)
      \<and> submission_coll (snd (submit_project e t1 t2 nm em title syn msg upl st))
          = submission_coll st
      \<and> notifications (snd (submit_project e t1 t2 nm em title syn msg upl st))
          = notifications st"
    by (cases upl)
      (auto simp: submit_project_def Submission_init_def create_document_file_def Let_def
        logged_def split: option.splits)
  have c: "validate_email e em \<noteq> None \<and> map_of (submission_coll st) (next_oid st) = None
        \<and> map_of (notifications st) (next_oid st + 1) = None
      \<Longrightarrow> fst (submit_project e t1 t2 [] em [] [] msg None st)
          = Inr \<lparr>submit_success = True, inserted_id = str_oid (next_oid st)\<rparr>"
    by (auto simp: submit_project_def Submission_init_def create_document_submission_def
        create_document_notification_def Let_def logged_def)
  from a b c show ?thesis by blast
qed

theorem submit_project_refused_email_witness:
  "validate_email example_env [] = None
   \<and> submit_project example_env 5 6 ''Ann'' [] ''Title'' ''Synopsis'' None None example_db
      = (Inl (Unhandled PydanticValidationError), example_db)
   \<and> submission_coll (snd (submit_project example_env 5 6 ''Ann'' [] ''Title'' ''Synopsis'' None
        (Some \<lparr>filename = ''novel.pdf'', content = [37, 80, 68, 70], content_type = None\<rparr>)
        example_db)) = []
   \<and> fst (submit_project example_env 5 6 [] ''ann@example.com'' [] [] None None example_db)
      = Inr \<lparr>submit_success = True, inserted_id = str_oid 1\<rparr>"
proof -
  have v: "validate_email example_env [] = None"
    by (simp add: example_env_def)
  have w: "validate_email example_env ''ann@example.com'' \<noteq> None"
    by (simp add: example_env_def)
  show ?thesis
    using v w
      submit_project_refused_email [of example_env "[]" 5 6 "''Ann''" "''Title''" "''Synopsis''"
        None "Some \<lparr>filename = ''novel.pdf'', content = [37, 80, 68, 70], content_type = None\<rparr>"
        example_db]
      submit_project_refused_email [of example_env "''ann@example.com''" 5 6 "''Ann''"
        "''Title''" "''Synopsis''" None None example_db]
    by (simp add: example_db_def)
qed

text \<open>
  The claim as stated fails: a request with an empty name is accepted and the submission
  is stored with the empty name, and so is one with an empty title and synopsis.
\<close>

theorem submit_project_empty_fields_counterexample:
  "fst (submit_project example_env 5 6 [] ''ann@example.com'' ''Title'' ''Synopsis'' None None
          example_db)
     = Inr \<lparr>submit_success = True, inserted_id = str_oid 1\<rparr>
   \<and> map_of (submission_coll (snd (submit_project example_env 5 6 [] ''ann@example.com''
          ''Title'' ''Synopsis'' None None example_db))) 1
     = Some \<lparr>name = [], email = ''ann@example.com'', novel_title = ''Title'',
          synopsis = ''Synopsis'', message = None, file_url = None, file_key = None,
          status = Pending, admin_notes = [], submitted_at = Some 5, updated_at = None\<rparr>
   \<and> fst (submit_project example_env 5 6 ''Ann'' ''ann@example.com'' [] [] None None
          example_db)
     = Inr \<lparr>submit_success = True, inserted_id = str_oid 1\<rparr>"
  by (simp add: submit_project_def Submission_init_def create_document_submission_def
      create_document_notification_def Let_def logged_def example_db_def example_env_def
      Submission.extend_def submission_doc.fields_def)

section \<open>Properties of the free-text query\<close>

lemma parse_bound_not_truthy: "\<not> truthy d \<Longrightarrow> parse_bound e d = Inr None"
  by (auto simp: parse_bound_def truthy_def split: option.splits)

lemma doc_matches_spec:
  "doc_matches \<lparr>query_status = (if truthy sf then sf else None),
                query_or = (if q = [] then None else Some (spec_contains_i q)),
                query_gte = lo, query_lte = hi\<rparr> d
     = (spec_free_text q d \<and> spec_status_filter sf d \<and> spec_date_range lo hi d)"
  by (auto simp: doc_matches_def spec_free_text_def spec_status_filter_def spec_date_range_def
      truthy_def spec_contains_i_def lower_def split: option.splits)

lemma set_insert_desc: "set (insert_desc x ys) = insert x (set ys)"
  by (induction ys) auto

lemma set_sort_desc: "set (sort_desc xs) = set xs"
  by (induction xs) (simp_all add: sort_desc_def set_insert_desc)

lemma parse_bound_cases:
  "parse_bound e d = (if unparseable e d then Inl ValueError else Inr (date_bound e d))"
  by (auto simp: parse_bound_def unparseable_def date_bound_def split: option.splits)

lemma not_truthy_bound: "\<not> truthy d \<Longrightarrow> \<not> unparseable e d \<and> date_bound e d = None"
  by (auto simp: truthy_def unparseable_def date_bound_def split: option.splits)

lemma list_submissions_plain:
  assumes m: "set q \<inter> set rx_meta = {}"
  shows "list_submissions e p ps (Some q) sf sd ed st =
     (if unparseable e sd \<or> unparseable e ed then (Inl (Unhandled ValueError), st)
      else if (p - 1) * ps < 0 then
        (Inl (Unhandled ValueError), logged (CountDocuments ''submission'') st)
      else
        (Inr \<lparr>items = map (\<lambda>kd. (str_oid (fst kd), snd kd))
                        (cursor_limit ps
                           (drop (nat ((p - 1) * ps))
                              (sort_desc (spec_selected q sf (date_bound e sd) (date_bound e ed)
                                            (submission_coll st))))),
              total = length (spec_selected q sf (date_bound e sd) (date_bound e ed)
                                (submission_coll st)),
              page = p, page_size = ps\<rparr>,
         logged (Find ''submission'') (logged (CountDocuments ''submission'') st)))"
proof -
  have rx: "(if q = [] then Some None else map_option Some (mongo_regex_i e q))
      = Some (if q = [] then None else Some (spec_contains_i q))"
    using m by (simp add: mongo_regex_plain)
  have bounds: "(if truthy sd \<or> truthy ed then
              (case parse_bound e sd of
                 Inl x \<Rightarrow> Inl x
               | Inr lo \<Rightarrow>
                   (case parse_bound e ed of
                      Inl x \<Rightarrow> Inl x
                    | Inr hi \<Rightarrow> Inr (lo, hi)))
            else Inr (None, None))
      = (if unparseable e sd \<or> unparseable e ed then Inl ValueError
         else Inr (date_bound e sd, date_bound e ed))"
    using not_truthy_bound [of sd e] not_truthy_bound [of ed e]
    by (auto simp: parse_bound_cases)
  have sel: "\<And>lo hi. filter (\<lambda>kd. doc_matches
          \<lparr>query_status = (if truthy sf then sf else None),
           query_or = (if q = [] then None else Some (spec_contains_i q)),
           query_gte = lo, query_lte = hi\<rparr> (snd kd)) (submission_coll st)
      = spec_selected q sf lo hi (submission_coll st)"
    by (simp only: spec_selected_def doc_matches_spec)
  consider (bad) "unparseable e sd \<or> unparseable e ed"
    | (neg) "\<not> (unparseable e sd \<or> unparseable e ed)" "(p - 1) * ps < 0"
    | (ok) "\<not> (unparseable e sd \<or> unparseable e ed)" "\<not> (p - 1) * ps < 0"
    by blast
  then show ?thesis
  proof cases
    case bad
    then show ?thesis
      unfolding list_submissions_def bounds by simp
  next
    case neg
    then show ?thesis
      unfolding list_submissions_def bounds
      by (simp add: rx Let_def split del: if_split)
  next
    case ok
    then show ?thesis
      unfolding list_submissions_def bounds
      by (simp add: rx sel Let_def split del: if_split)
  qed
qed

lemma cursor_no_limit: "cursor_limit 0 xs = xs"
  by (simp add: cursor_limit_def)

text \<open>
  C7, as amended. For a free-text query without regular-expression metacharacters and
  any other parameters, the list operation fails with \<open>ValueError\<close> when a date bound is
  given, not empty and not parseable, and, after the count, when the offset
  \<open>(page - 1) * page_size\<close> is negative; otherwise it returns a listing made from exactly
  the stored submissions that pass the status and date filters of the request and in
  which the query occurs as a case-insensitive literal substring of the name, the e-mail
  address or the title: \<open>total\<close> is their number and \<open>items\<close> is the requested page of
  them, newest first. With page 1 and page size 0, which sets no limit, the items are
  exactly these submissions.
\<close>

theorem list_submissions_plain_query:
  assumes "set q \<inter> set rx_meta = {}"
  shows "list_submissions e p ps (Some q) sf sd ed st =
     (if unparseable e sd \<or> unparseable e ed then (Inl (Unhandled ValueError), st)
      else if (p - 1) * ps < 0 then
        (Inl (Unhandled ValueError), logged (CountDocuments ''submission'') st)
      else
        (Inr \<lparr>items = map (\<lambda>kd. (str_oid (fst kd), snd kd))
                        (cursor_limit ps
                           (drop (nat ((p - 1) * ps))
                              (sort_desc (spec_selected q sf (date_bound e sd) (date_bound e ed)
                                            (submission_coll st))))),
              total = length (spec_selected q sf (date_bound e sd) (date_bound e ed)
                                (submission_coll st)),
              page = p, page_size = ps\<rparr>,
         logged (Find ''submission'') (logged (CountDocuments ''submission'') st)))
   \<and> (\<not> unparseable e sd \<and> \<not> unparseable e ed \<longrightarrow>
        (\<exists>L. fst (list_submissions e 1 0 (Some q) sf sd ed st) = Inr L
           \<and> set (items L)
               = (\<lambda>kd. (str_oid (fst kd), snd kd)) `
                   {kd \<in> set (submission_coll st).
                      spec_free_text q (snd kd) \<and> spec_status_filter sf (snd kd)
                      \<and> spec_date_range (date_bound e sd) (date_bound e ed) (snd kd)}))"
proof
  show "list_submissions e p ps (Some q) sf sd ed st =
     (if unparseable e sd \<or> unparseable e ed then (Inl (Unhandled ValueError), st)
      else if (p - 1) * ps < 0 then
        (Inl (Unhandled ValueError), logged (CountDocuments ''submission'') st)
      else
        (Inr \<lparr>items = map (\<lambda>kd. (str_oid (fst kd), snd kd))
                        (cursor_limit ps
                           (drop (nat ((p - 1) * ps))
                              (sort_desc (spec_selected q sf (date_bound e sd) (date_bound e ed)
                                            (submission_coll st))))),
              total = length (spec_selected q sf (date_bound e sd) (date_bound e ed)
                                (submission_coll st)),
              page = p, page_size = ps\<rparr>,
         logged (Find ''submission'') (logged (CountDocuments ''submission'') st)))"
    using assms by (rule list_submissions_plain)
next
  show "\<not> unparseable e sd \<and> \<not> unparseable e ed \<longrightarrow>
        (\<exists>L. fst (list_submissions e 1 0 (Some q) sf sd ed st) = Inr L
           \<and> set (items L)
               = (\<lambda>kd. (str_oid (fst kd), snd kd)) `
                   {kd \<in> set (submission_coll st).
                      spec_free_text q (snd kd) \<and> spec_status_filter sf (snd kd)
                      \<and> spec_date_range (date_bound e sd) (date_bound e ed) (snd kd)})"
    by (simp add: list_submissions_plain [OF assms] cursor_no_limit set_sort_desc
        spec_selected_def)
qed

theorem list_submissions_plain_query_witness:
  "set ''AB'' \<inter> set rx_meta = {}
   \<and> list_submissions example_env 1 10 (Some ''AB'') None None None abc_db
      = (Inr \<lparr>items = [(str_oid 1, abc_doc)], total = 1, page = 1, page_size = 10\<rparr>,
         abc_db\<lparr>oplog := [CountDocuments ''submission'', Find ''submission'']\<rparr>)
   \<and> set ''O'' \<inter> set rx_meta = {}
   \<and> fst (list_submissions example_env 1 10 (Some ''O'') None None None abc_db)
      = Inr \<lparr>items = [(str_oid 2, zoe_doc), (str_oid 1, abc_doc)], total = 2, page = 1,
            page_size = 10\<rparr>
   \<and> fst (list_submissions example_env 1 10 (Some ''O'') (Some ''Approved'') None None abc_db)
      = Inr \<lparr>items = [(str_oid 2, zoe_doc)], total = 1, page = 1, page_size = 10\<rparr>"
proof -
  have m: "set ''AB'' \<inter> set rx_meta = {}" and m': "set ''O'' \<inter> set rx_meta = {}"
    by (simp_all add: rx_meta_def)
  have d: "\<not> unparseable example_env None" "date_bound example_env None = None"
    by (simp_all add: unparseable_def date_bound_def)
  have s1: "spec_selected ''AB'' None None None (submission_coll abc_db) = [(1, abc_doc)]"
    by (simp add: spec_selected_def spec_free_text_def spec_contains_i_def
        spec_status_filter_def spec_date_range_def abc_db_def abc_doc_def zoe_doc_def
        lower_def lower_char_def char_of_eq_iff sublist_Cons_right)
  have s2: "spec_selected ''O'' None None None (submission_coll abc_db)
      = [(1, abc_doc), (2, zoe_doc)]"
    by (simp add: spec_selected_def spec_free_text_def spec_contains_i_def
        spec_status_filter_def spec_date_range_def abc_db_def abc_doc_def zoe_doc_def
        lower_def lower_char_def char_of_eq_iff sublist_Cons_right)
  have s3: "spec_selected ''O'' (Some ''Approved'') None None (submission_coll abc_db)
      = [(2, zoe_doc)]"
    by (simp add: spec_selected_def spec_free_text_def spec_contains_i_def
        spec_status_filter_def spec_date_range_def abc_db_def abc_doc_def zoe_doc_def
        lower_def lower_char_def char_of_eq_iff sublist_Cons_right)
  have o: "sort_desc [(1, abc_doc), (2, zoe_doc)] = [(2, zoe_doc), (1 :: oid, abc_doc)]"
    by (simp add: sort_desc_def newer_or_equal_def abc_doc_def zoe_doc_def)
  have o1: "sort_desc [(k, x)] = [(k, x)]" for k x
    by (simp add: sort_desc_def)
  show ?thesis
    using m m'
      list_submissions_plain_query [OF m, THEN conjunct1, of example_env 1 10 None None None abc_db]
      list_submissions_plain_query [OF m', THEN conjunct1, of example_env 1 10 None None None abc_db]
      list_submissions_plain_query [OF m', THEN conjunct1, of example_env 1 10 "Some ''Approved''"
        None None abc_db]
    by (simp add: d s1 s2 s3 o o1 cursor_limit_def logged_def) (simp add: abc_db_def)
qed

text \<open>
  The claim as stated fails in three ways. The query is a regular expression, so
  \<open>a.c\<close> selects the submission of the author "abc", in none of whose fields the string
  \<open>a.c\<close> occurs. The other filters apply as well, so a submission in which the query
  occurs is not returned when its status is not the one asked for. And page 0 makes the
  operation fail.
\<close>

theorem list_submissions_regex_counterexample:
  "fst (list_submissions example_env 1 10 (Some ''a.c'') None None None abc_db)
     = Inr \<lparr>items = [(str_oid 1, abc_doc)], total = 1, page = 1, page_size = 10\<rparr>
   \<and> \<not> spec_free_text ''a.c'' abc_doc
   \<and> fst (list_submissions example_env 1 10 (Some ''AB'') (Some ''Approved'') None None abc_db)
     = Inr \<lparr>items = [], total = 0, page = 1, page_size = 10\<rparr>
   \<and> spec_free_text ''AB'' abc_doc
   \<and> fst (list_submissions example_env 0 10 (Some ''AB'') None None None abc_db)
     = Inl (Unhandled ValueError)"
proof -
  have p: "parse_simple ''a.c'' = Some [Lit CHR ''a'', Dot, Lit CHR ''c'']"
    by (simp add: rx_meta_def)
  have r: "mongo_regex_i example_env ''a.c'' = Some (rx_search [Lit CHR ''a'', Dot, Lit CHR ''c''])"
    unfolding mongo_regex_i_def p by simp
  have f: "filter (\<lambda>kd. doc_matches \<lparr>query_status = None,
        query_or = Some (rx_search [Lit CHR ''a'', Dot, Lit CHR ''c'']),
        query_gte = None, query_lte = None\<rparr> (snd kd)) (submission_coll abc_db)
      = [(1, abc_doc)]"
    by (simp add: doc_matches_def abc_db_def abc_doc_def zoe_doc_def lower_char_def
        char_of_eq_iff)
  have c1: "fst (list_submissions example_env 1 10 (Some ''a.c'') None None None abc_db)
     = Inr \<lparr>items = [(str_oid 1, abc_doc)], total = 1, page = 1, page_size = 10\<rparr>"
    by (simp add: list_submissions_def truthy_def r f Let_def sort_desc_def cursor_limit_def)
  have n: "\<not> spec_free_text ''a.c'' abc_doc"
    by (simp add: spec_free_text_def spec_contains_i_def abc_doc_def lower_def lower_char_def
        char_of_eq_iff sublist_Cons_right)
  have y: "spec_free_text ''AB'' abc_doc"
    by (simp add: spec_free_text_def spec_contains_i_def abc_doc_def lower_def lower_char_def
        char_of_eq_iff sublist_Cons_right)
  have m: "set ''AB'' \<inter> set rx_meta = {}"
    by (simp add: rx_meta_def)
  have d: "\<not> unparseable example_env None" "date_bound example_env None = None"
    by (simp_all add: unparseable_def date_bound_def)
  have s: "spec_selected ''AB'' (Some ''Approved'') None None (submission_coll abc_db) = []"
    by (simp add: spec_selected_def spec_free_text_def spec_contains_i_def
        spec_status_filter_def spec_date_range_def abc_db_def abc_doc_def zoe_doc_def
        lower_def lower_char_def char_of_eq_iff sublist_Cons_right)
  have c2: "fst (list_submissions example_env 1 10 (Some ''AB'') (Some ''Approved'') None None
        abc_db) = Inr \<lparr>items = [], total = 0, page = 1, page_size = 10\<rparr>"
    by (simp add: list_submissions_plain [OF m] d s sort_desc_def cursor_limit_def)
  have c3: "fst (list_submissions example_env 0 10 (Some ''AB'') None None None abc_db)
     = Inl (Unhandled ValueError)"
    by (simp add: list_submissions_plain [OF m] d)
  from c1 n c2 y c3 show ?thesis by simp
qed

end
